theory Spec2Isabelle
  imports Complex_Main "HOL-Library.Sublist" "HOL-Library.Word"
begin

section \<open>Results of Go calls\<close>

text \<open>
  A Go function of this package either returns a value, returns a non-nil \<open>error\<close>
  (built with \<open>fmt.Errorf\<close>; the model keeps the message), or panics at run time
  (a nil pointer is dereferenced, a slice is indexed out of range). The three outcomes
  are kept apart, since returning an error and crashing are different behaviours.
\<close>

datatype panic = NilDereference | IndexOutOfRange

datatype 'a result = Ok 'a | Err string | Panic panic

fun is_Ok :: "'a result \<Rightarrow> bool" where
  "is_Ok (Ok _) = True"
| "is_Ok _ = False"


fun is_Panic :: "'a result \<Rightarrow> bool" where
  "is_Panic (Panic _) = True"
| "is_Panic _ = False"

text \<open>
  The metrics are \<open>float64\<close> fields. They hold counts: sums of 32-bit integers and
  increments by one, which \<open>float64\<close> represents exactly below \<open>2^53\<close>. The model
  computes with exact reals; rounding is not modelled.
\<close>

type_synonym float64 = real

section \<open>Strings\<close>

text \<open>
  Go strings are byte sequences. \<open>strings.ToLower\<close> is modelled on ASCII: the letters
  \<open>A\<close> to \<open>Z\<close> are mapped to \<open>a\<close> to \<open>z\<close>, every other byte is kept.
\<close>

definition ToLower_char :: "char \<Rightarrow> char" where
  "ToLower_char c =
     (case map_of (zip ''ABCDEFGHIJKLMNOPQRSTUVWXYZ'' ''abcdefghijklmnopqrstuvwxyz'') c of
        Some l \<Rightarrow> l
      | None \<Rightarrow> c)"

definition ToLower :: "string \<Rightarrow> string" where
  "ToLower s = map ToLower_char s"

text \<open>
  \<open>regexp.MustCompile(`^p`).MatchString(s)\<close> for a literal \<open>p\<close> holds exactly when
  \<open>p\<close> is a prefix of \<open>s\<close>; the model uses \<^const>\<open>prefix\<close>.
\<close>

text \<open>\<open>strings.Split(s, sep)\<close> for a separator of one byte.\<close>

fun Split :: "string \<Rightarrow> char \<Rightarrow> string list" where
  "Split [] sep = [[]]"
| "Split (c # cs) sep =
     (if c = sep then [] # Split cs sep
      else (case Split cs sep of
              w # ws \<Rightarrow> (c # w) # ws
            | [] \<Rightarrow> [[c]]))"

text \<open>\<open>strings.Contains(s, sub)\<close>.\<close>

fun Contains :: "string \<Rightarrow> string \<Rightarrow> bool" where
  "Contains [] sub = (sub = [])"
| "Contains (c # cs) sub = (prefix sub (c # cs) \<or> Contains cs sub)"

text \<open>
  \<open>strconv.Atoi\<close>: an optional sign, then at least one decimal digit and nothing else;
  the value has to fit Go's 64-bit \<open>int\<close>. \<open>None\<close> stands for the returned error.
\<close>

definition digit_of :: "char \<Rightarrow> nat option" where
  "digit_of c = map_of (zip ''0123456789'' [0, 1, 2, 3, 4, 5, 6, 7, 8, 9]) c"

fun digits_value :: "nat \<Rightarrow> string \<Rightarrow> nat option" where
  "digits_value n [] = Some n"
| "digits_value n (c # cs) =
     (case digit_of c of
        None \<Rightarrow> None
      | Some d \<Rightarrow> digits_value (n * 10 + d) cs)"

definition Atoi :: "string \<Rightarrow> int option" where
  "Atoi s =
     (let neg = (s \<noteq> [] \<and> hd s = CHR ''-'');
          ds = (if s \<noteq> [] \<and> (hd s = CHR ''-'' \<or> hd s = CHR ''+'') then tl s else s)
      in if ds = [] then None
         else (case digits_value 0 ds of
                 None \<Rightarrow> None
               | Some n \<Rightarrow>
                   (let v = (if neg then - int n else int n)
                    in if - (2 ^ 63) \<le> v \<and> v < 2 ^ 63 then Some v else None)))"

section \<open>State enumerations\<close>

text \<open>The package \<open>types\<close> declares the two closed enumerations.\<close>

datatype JobState =
    JobStatePending | JobStateRunning | JobStateSuspended | JobStateCancelled
  | JobStateCompleting | JobStateCompleted | JobStateConfiguring | JobStateFailed
  | JobStateTimeout | JobStatePreempted | JobStateNodeFail | JobStateOutOfMemory

datatype NodeState =
    NodeStateAlloc | NodeStateComp | NodeStateDown | NodeStateDrain | NodeStateFail
  | NodeStateErr | NodeStateIdle | NodeStateMaint | NodeStateMix | NodeStateResv
  | NodeStateNotResponding | NodeStateInvalid | NodeStateInvalidReg

section \<open>Records of the REST client\<close>

text \<open>
  The records come from the generated client library. A pointer field is an
  \<open>option\<close> (\<open>None\<close> is \<open>nil\<close>); a slice field is an optional list, \<open>None\<close> being
  the nil slice and \<open>Some []\<close> an empty slice that is not nil (what decoding the JSON
  array \<open>[]\<close> gives). The integer fields are \<open>int32\<close>. Only the fields the functions
  below read are kept.
\<close>

record Uint32NoVal =
  Number :: "32 word option"

record JobInfo =
  job_Account :: "string option"
  job_Partition :: "string option"
  job_JobState :: "string list option"
  job_Cpus :: "Uint32NoVal option"
  job_UserName :: "string option"
  job_Dependency :: "string option"

record Node =
  node_Name :: "string option"
  node_State :: "string list option"
  node_Cpus :: "32 word option"
  node_AllocCpus :: "32 word option"
  node_AllocIdleCpus :: "32 word option"
  node_Partitions :: "string list option"
  node_Tres :: "string option"
  node_TresUsed :: "string option"

record PartitionCpus =
  Total :: "32 word option"

record PartitionInfo =
  partition_Name :: "string option"
  partition_Cpus :: "PartitionCpus option"

record Fairshare =
  Level :: "float64 option"

record Share =
  share_Name :: "string option"
  share_Fairshare :: "Fairshare option"

section \<open>Field accessors\<close>


definition GetJobPartitionName :: "JobInfo \<Rightarrow> string result" where
  "GetJobPartitionName job =
     (case job_Partition job of
        None \<Rightarrow> Err ''partition name not found in job''
      | Some name \<Rightarrow> Ok name)"

text \<open>
  \<open>GetJobState\<close> tests the slice against \<open>nil\<close> only and then reads index 0, which
  panics on an empty slice. The \<open>switch\<close> takes the first case whose pattern matches.
\<close>

definition GetJobState :: "JobInfo \<Rightarrow> JobState result" where
  "GetJobState job =
     (case job_JobState job of
        None \<Rightarrow> Err ''job state not found in job''
      | Some [] \<Rightarrow> Panic IndexOutOfRange
      | Some (s0 # rest) \<Rightarrow>
          (let state = ToLower s0
           in if prefix ''completed'' state then Ok JobStateCompleted
              else if prefix ''pending'' state then Ok JobStatePending
              else if prefix ''failed'' state then Ok JobStateFailed
              else if prefix ''running'' state then Ok JobStateRunning
              else if prefix ''suspended'' state then Ok JobStateSuspended
              else if prefix ''out_of_memory'' state then Ok JobStateOutOfMemory
              else if prefix ''timeout'' state then Ok JobStateTimeout
              else if prefix ''cancelled'' state then Ok JobStateCancelled
              else if prefix ''completing'' state then Ok JobStateCompleting
              else if prefix ''configuring'' state then Ok JobStateConfiguring
              else if prefix ''node_fail'' state then Ok JobStateNodeFail
              else if prefix ''preempted'' state then Ok JobStatePreempted
              else Err (''failed to match job state against known states: '' @ state)))"

definition GetNodeName :: "Node \<Rightarrow> string result" where
  "GetNodeName node =
     (case node_Name node of
        None \<Rightarrow> Err ''node name not found in node information''
      | Some name \<Rightarrow> Ok name)"

text \<open>\<open>job.Cpus.Number\<close> goes through the pointer \<open>job.Cpus\<close> first.\<close>

definition GetJobCPUs :: "JobInfo \<Rightarrow> float64 result" where
  "GetJobCPUs job =
     (case job_Cpus job of
        None \<Rightarrow> Panic NilDereference
      | Some c \<Rightarrow>
          (case Number c of
             None \<Rightarrow> Err ''failed to find cpu count in job''
           | Some cn \<Rightarrow> Ok (real_of_int (sint cn))))"

definition GetPartitionName :: "PartitionInfo \<Rightarrow> string result" where
  "GetPartitionName part =
     (case partition_Name part of
        None \<Rightarrow> Err ''failed to find name in partition''
      | Some pn \<Rightarrow> Ok pn)"

definition GetPartitionTotalCPUs :: "PartitionInfo \<Rightarrow> float64 result" where
  "GetPartitionTotalCPUs part =
     (case partition_Cpus part of
        None \<Rightarrow> Panic NilDereference
      | Some c \<Rightarrow>
          (case Total c of
             None \<Rightarrow> Err ''failed to find total cpus in partition''
           | Some pn \<Rightarrow> Ok (real_of_int (sint pn))))"

text \<open>The \<open>switch\<close> of \<open>GetNodeStates\<close> on one lower-cased token, cases in source order.\<close>

definition node_state_switch :: "string \<Rightarrow> NodeState result" where
  "node_state_switch state =
     (if prefix ''alloc'' state then Ok NodeStateAlloc
      else if prefix ''comp'' state then Ok NodeStateComp
      else if prefix ''down'' state then Ok NodeStateDown
      else if prefix ''drain'' state then Ok NodeStateDrain
      else if prefix ''fail'' state then Ok NodeStateFail
      else if prefix ''err'' state then Ok NodeStateErr
      else if prefix ''idle'' state then Ok NodeStateIdle
      else if prefix ''maint'' state then Ok NodeStateMaint
      else if prefix ''mix'' state then Ok NodeStateMix
      else if prefix ''res'' state then Ok NodeStateResv
      else if prefix ''not_responding'' state then Ok NodeStateNotResponding
      else if prefix ''invalid'' state then Ok NodeStateInvalid
      else if prefix ''invalid_reg'' state then Ok NodeStateInvalidReg
      else Err (''failed to match cpu state against known states: '' @ state))"

text \<open>The loop of \<open>GetNodeStates\<close>: \<open>nodeStates\<close> grows by \<open>append\<close>, the first
  token that matches no case ends the call with its error.\<close>

fun node_states_loop :: "string list \<Rightarrow> NodeState list \<Rightarrow> NodeState list result" where
  "node_states_loop [] nodeStates = Ok nodeStates"
| "node_states_loop (s # ss) nodeStates =
     (case node_state_switch (ToLower s) of
        Ok stateUnit \<Rightarrow> node_states_loop ss (nodeStates @ [stateUnit])
      | Err e \<Rightarrow> Err e
      | Panic p \<Rightarrow> Panic p)"

definition GetNodeStates :: "Node \<Rightarrow> NodeState list result" where
  "GetNodeStates node =
     (case node_State node of
        None \<Rightarrow> Err ''node state not found in node''
      | Some states \<Rightarrow> node_states_loop states [])"

text \<open>
  \<open>GetNodeGPUTotal\<close> and \<open>GetNodeGPUAllocated\<close> run the same loop over the
  comma-separated pairs of \<open>node.Tres\<close> and \<open>node.TresUsed\<close>; both dereference the
  pointer without a test.
\<close>

fun gpu_pairs_loop :: "string list \<Rightarrow> int result" where
  "gpu_pairs_loop [] = Ok 0"
| "gpu_pairs_loop (p # parts) =
     (if Contains p ''gres/gpu='' then
        (let gp = Split p CHR ''=''
         in if length gp \<noteq> 2 then Err (''found gpu in tres but failed to parse: '' @ p)
            else (case Atoi (gp ! 1) of
                    None \<Rightarrow> Err (''failed to parse number of gpus from tres: '' @ p)
                  | Some n \<Rightarrow> Ok n))
      else gpu_pairs_loop parts)"

definition GetNodeGPUTotal :: "Node \<Rightarrow> int result" where
  "GetNodeGPUTotal node =
     (case node_Tres node of
        None \<Rightarrow> Panic NilDereference
      | Some tres \<Rightarrow> gpu_pairs_loop (Split tres CHR '',''))"

definition GetNodeGPUAllocated :: "Node \<Rightarrow> int result" where
  "GetNodeGPUAllocated node =
     (case node_TresUsed node of
        None \<Rightarrow> Panic NilDereference
      | Some tres \<Rightarrow> gpu_pairs_loop (Split tres CHR '',''))"

definition GetNodePartitions :: "Node \<Rightarrow> string list" where
  "GetNodePartitions node = (case node_Partitions node of None \<Rightarrow> [] | Some ps \<Rightarrow> ps)"

text \<open>\<open>uint64(*alloc_cpus)\<close> converts an \<open>int32\<close>: the sign is extended.\<close>

definition GetNodeAllocCPUs :: "Node \<Rightarrow> 64 word" where
  "GetNodeAllocCPUs node = (case node_AllocCpus node of None \<Rightarrow> 0 | Some a \<Rightarrow> scast a)"

definition GetNodeIdleCPUs :: "Node \<Rightarrow> 64 word" where
  "GetNodeIdleCPUs node = (case node_AllocIdleCpus node of None \<Rightarrow> 0 | Some a \<Rightarrow> scast a)"

section \<open>Loops over slices\<close>

text \<open>
  A \<open>for _, x := range xs\<close> loop whose body updates the loop state and may leave the
  function with an error or a panic. \<open>continue\<close> is a body that returns its state.
\<close>

fun range_loop :: "('s \<Rightarrow> 'a \<Rightarrow> 's result) \<Rightarrow> 'a list \<Rightarrow> 's \<Rightarrow> 's result" where
  "range_loop body [] s = Ok s"
| "range_loop body (x # xs) s =
     (case body s x of
        Ok s' \<Rightarrow> range_loop body xs s'
      | Err e \<Rightarrow> Err e
      | Panic p \<Rightarrow> Panic p)"

text \<open>
  \<open>slog.Error(msg, "error", err)\<close> appends to the process log; the model keeps the
  log as the list of the pairs (message, error text) written so far.
\<close>

type_synonym log = "(string \<times> string) list"

section \<open>Account job tally\<close>





section \<open>User job tally\<close>





section \<open>Cluster CPU tally\<close>

record cpusMetrics =
  cm_alloc :: float64
  cm_idle :: float64
  cm_other :: float64
  cm_total :: float64

definition NewCPUsMetrics :: cpusMetrics where
  "NewCPUsMetrics = \<lparr>cm_alloc = 0, cm_idle = 0, cm_other = 0, cm_total = 0\<rparr>"

text \<open>The first loop of \<open>ParseCPUsMetrics\<close>, over the jobs: failures are logged and
  the job is left out (\<open>continue\<close>).\<close>

definition cpus_job_body :: "cpusMetrics \<times> log \<Rightarrow> JobInfo \<Rightarrow> (cpusMetrics \<times> log) result" where
  "cpus_job_body st j =
     (case st of (cm, lg) \<Rightarrow>
       (case GetJobState j of
          Err e \<Rightarrow> Ok (cm, lg @ [(''failed to get job state'', e)])
        | Panic p \<Rightarrow> Panic p
        | Ok state \<Rightarrow>
            (case GetJobCPUs j of
               Err e \<Rightarrow> Ok (cm, lg @ [(''failed to get job cpus'', e)])
             | Panic p \<Rightarrow> Panic p
             | Ok cpus \<Rightarrow>
                 Ok (if state = JobStateRunning then cm\<lparr>cm_alloc := cm_alloc cm + cpus\<rparr>
                     else cm, lg))))"

text \<open>The inner loop over the states of one node: every state that is \<open>Mix\<close>,
  \<open>Alloc\<close> or \<open>Idle\<close> adds \<open>*n.AllocIdleCpus\<close>.\<close>

definition cpus_state_body :: "Node \<Rightarrow> cpusMetrics \<Rightarrow> NodeState \<Rightarrow> cpusMetrics result" where
  "cpus_state_body n cm ns =
     (if ns = NodeStateMix \<or> ns = NodeStateAlloc \<or> ns = NodeStateIdle then
        (case node_AllocIdleCpus n of
           None \<Rightarrow> Panic NilDereference
         | Some idle_cpus \<Rightarrow> Ok (cm\<lparr>cm_idle := cm_idle cm + real_of_int (sint idle_cpus)\<rparr>))
      else Ok cm)"

text \<open>The second loop, over the nodes: a node with \<open>*n.Cpus == 1\<close> is passed over
  before anything else is read from it.\<close>

definition cpus_node_body :: "cpusMetrics \<Rightarrow> Node \<Rightarrow> cpusMetrics result" where
  "cpus_node_body cm n =
     (case node_Cpus n of
        None \<Rightarrow> Panic NilDereference
      | Some c \<Rightarrow>
          if c = 1 then Ok cm
          else
            (let cm = cm\<lparr>cm_total := cm_total cm + real_of_int (sint c)\<rparr>
             in case GetNodeStates n of
                  Err e \<Rightarrow> Err (''failed to get node state for cpu metrics: '' @ e)
                | Panic p \<Rightarrow> Panic p
                | Ok nodeStates \<Rightarrow> range_loop (cpus_state_body n) nodeStates cm))"

definition ParseCPUsMetrics :: "Node list \<Rightarrow> JobInfo list \<Rightarrow> (cpusMetrics \<times> log) result" where
  "ParseCPUsMetrics nodes jobs =
     (case range_loop cpus_job_body jobs (NewCPUsMetrics, []) of
        Err e \<Rightarrow> Err e
      | Panic p \<Rightarrow> Panic p
      | Ok (cm, lg) \<Rightarrow>
          (case range_loop cpus_node_body nodes cm of
             Err e \<Rightarrow> Err e
           | Panic p \<Rightarrow> Panic p
           | Ok cm \<Rightarrow> Ok (cm\<lparr>cm_other := cm_total cm - cm_idle cm - cm_alloc cm\<rparr>, lg)))"

section \<open>Queue tally\<close>

record queueMetrics =
  qm_pending :: float64
  qm_pending_dep :: float64
  qm_running :: float64
  qm_suspended :: float64
  qm_cancelled :: float64
  qm_completing :: float64
  qm_completed :: float64
  qm_configuring :: float64
  qm_failed :: float64
  qm_timeout :: float64
  qm_preempted :: float64
  qm_node_fail :: float64

definition NewQueueMetrics :: queueMetrics where
  "NewQueueMetrics =
     \<lparr>qm_pending = 0, qm_pending_dep = 0, qm_running = 0, qm_suspended = 0,
      qm_cancelled = 0, qm_completing = 0, qm_completed = 0, qm_configuring = 0,
      qm_failed = 0, qm_timeout = 0, qm_preempted = 0, qm_node_fail = 0\<rparr>"

text \<open>
  The body of the loop of \<open>ParseQueueMetrics\<close>. The record has no field for
  \<open>JobStateOutOfMemory\<close> and the \<open>switch\<close> has no case for it; \<open>*j.Dependency\<close> is
  dereferenced without a test in the \<open>Pending\<close> case.
\<close>

definition queue_body :: "queueMetrics \<Rightarrow> JobInfo \<Rightarrow> queueMetrics result" where
  "queue_body qm j =
     (case GetJobState j of
        Err e \<Rightarrow> Err (''failed to get job state: '' @ e)
      | Panic p \<Rightarrow> Panic p
      | Ok jobState \<Rightarrow>
          (case jobState of
             JobStatePending \<Rightarrow>
               (case job_Dependency j of
                  None \<Rightarrow> Panic NilDereference
                | Some d \<Rightarrow>
                    if d \<noteq> [] then Ok (qm\<lparr>qm_pending_dep := qm_pending_dep qm + 1\<rparr>)
                    else Ok (qm\<lparr>qm_pending := qm_pending qm + 1\<rparr>))
           | JobStateRunning \<Rightarrow> Ok (qm\<lparr>qm_running := qm_running qm + 1\<rparr>)
           | JobStateSuspended \<Rightarrow> Ok (qm\<lparr>qm_suspended := qm_suspended qm + 1\<rparr>)
           | JobStateCancelled \<Rightarrow> Ok (qm\<lparr>qm_cancelled := qm_cancelled qm + 1\<rparr>)
           | JobStateCompleting \<Rightarrow> Ok (qm\<lparr>qm_completing := qm_completing qm + 1\<rparr>)
           | JobStateCompleted \<Rightarrow> Ok (qm\<lparr>qm_completed := qm_completed qm + 1\<rparr>)
           | JobStateConfiguring \<Rightarrow> Ok (qm\<lparr>qm_configuring := qm_configuring qm + 1\<rparr>)
           | JobStateFailed \<Rightarrow> Ok (qm\<lparr>qm_failed := qm_failed qm + 1\<rparr>)
           | JobStateTimeout \<Rightarrow> Ok (qm\<lparr>qm_timeout := qm_timeout qm + 1\<rparr>)
           | JobStatePreempted \<Rightarrow> Ok (qm\<lparr>qm_preempted := qm_preempted qm + 1\<rparr>)
           | JobStateNodeFail \<Rightarrow> Ok (qm\<lparr>qm_node_fail := qm_node_fail qm + 1\<rparr>)
           | JobStateOutOfMemory \<Rightarrow> Ok qm))"

definition ParseQueueMetrics :: "JobInfo list \<Rightarrow> queueMetrics result" where
  "ParseQueueMetrics jobs = range_loop queue_body jobs NewQueueMetrics"

text \<open>The twelve counters of a \<open>queueMetrics\<close> record, in the order of the fields.\<close>

definition counters :: "queueMetrics \<Rightarrow> float64 list" where
  "counters qm =
     [qm_pending qm, qm_pending_dep qm, qm_running qm, qm_suspended qm, qm_cancelled qm,
      qm_completing qm, qm_completed qm, qm_configuring qm, qm_failed qm, qm_timeout qm,
      qm_preempted qm, qm_node_fail qm]"

section \<open>Fair-share tally\<close>

record fairShareMetrics =
  fairshare :: float64

definition NewFairShareMetrics :: fairShareMetrics where
  "NewFairShareMetrics = \<lparr>fairshare = 0\<rparr>"

text \<open>
  The body of the loop of \<open>ParseFairShareMetrics\<close>: \<open>*s.Name\<close> and
  \<open>*s.Fairshare.Level\<close> are dereferenced without a test, and the function has no
  statement that returns an error.
\<close>

definition fairshare_body ::
  "(string \<rightharpoonup> fairShareMetrics) \<Rightarrow> Share \<Rightarrow> (string \<rightharpoonup> fairShareMetrics) result" where
  "fairshare_body accounts s =
     (case share_Name s of
        None \<Rightarrow> Panic NilDereference
      | Some account \<Rightarrow>
          (let m = (case accounts account of None \<Rightarrow> NewFairShareMetrics | Some m \<Rightarrow> m);
               accounts = accounts(account \<mapsto> m)
           in case share_Fairshare s of
                None \<Rightarrow> Panic NilDereference
              | Some f \<Rightarrow>
                  (case Level f of
                     None \<Rightarrow> Panic NilDereference
                   | Some l \<Rightarrow> Ok (accounts(account \<mapsto> m\<lparr>fairshare := l\<rparr>)))))"

definition ParseFairShareMetrics :: "Share list \<Rightarrow> (string \<rightharpoonup> fairShareMetrics) result" where
  "ParseFairShareMetrics shares = range_loop fairshare_body shares Map.empty"

section \<open>Partition cross-reference\<close>

record partitionMetrics =
  cpus_allocated :: float64
  cpus_idle :: float64
  cpus_other :: float64
  cpus_total :: float64
  jobs_pending :: float64

definition NewPartitionsMetrics :: partitionMetrics where
  "NewPartitionsMetrics =
     \<lparr>cpus_allocated = 0, cpus_idle = 0, cpus_other = 0, cpus_total = 0, jobs_pending = 0\<rparr>"

type_synonym partitions = "string \<rightharpoonup> partitionMetrics"

text \<open>The record under a key, created zeroed when the key is new.\<close>

definition get_or_new :: "partitions \<Rightarrow> string \<Rightarrow> partitionMetrics" where
  "get_or_new partitions name =
     (case partitions name of None \<Rightarrow> NewPartitionsMetrics | Some m \<Rightarrow> m)"

text \<open>First loop: the total CPU count of every partition record.\<close>

definition seed_body :: "partitions \<Rightarrow> PartitionInfo \<Rightarrow> partitions result" where
  "seed_body partitions p =
     (case GetPartitionName p of
        Err e \<Rightarrow> Err (''failed to get partition name for partition metrics: '' @ e)
      | Panic x \<Rightarrow> Panic x
      | Ok partitionName \<Rightarrow>
          (let m = get_or_new partitions partitionName;
               partitions = partitions(partitionName \<mapsto> m)
           in case GetPartitionTotalCPUs p of
                Err e \<Rightarrow> Err (''failed to collect cpu total for partition metrics: '' @ e)
              | Panic x \<Rightarrow> Panic x
              | Ok tot \<Rightarrow> Ok (partitions(partitionName \<mapsto> m\<lparr>cpus_total := tot\<rparr>))))"

text \<open>Second loop: the map from node name to partition names. Nothing reads the map
  later, but a node without a name ends the call here.\<close>

definition node_partitions_body ::
  "(string \<rightharpoonup> string list) \<Rightarrow> Node \<Rightarrow> (string \<rightharpoonup> string list) result" where
  "node_partitions_body nodePartitions n =
     (case GetNodeName n of
        Err e \<Rightarrow> Err (''failed to get node name for partition metrics: '' @ e)
      | Panic x \<Rightarrow> Panic x
      | Ok nodeName \<Rightarrow> Ok (nodePartitions(nodeName \<mapsto> GetNodePartitions n)))"

text \<open>Third loop: every node adds its allocated and idle CPU counts to each partition
  it names, once per occurrence of the name.\<close>

definition fanout_inner :: "Node \<Rightarrow> partitions \<Rightarrow> string \<Rightarrow> partitions" where
  "fanout_inner n partitions partitionName =
     (let m = get_or_new partitions partitionName
      in partitions(partitionName \<mapsto>
           m\<lparr>cpus_allocated := cpus_allocated m + real (unat (GetNodeAllocCPUs n)),
             cpus_idle := cpus_idle m + real (unat (GetNodeIdleCPUs n))\<rparr>))"

definition fanout_body :: "partitions \<Rightarrow> Node \<Rightarrow> partitions" where
  "fanout_body partitions n = foldl (fanout_inner n) partitions (GetNodePartitions n)"

text \<open>
  Fourth loop: \<open>for i, p := range partitions\<close> visits every key of the map once, in
  an order the Go runtime chooses. The order is a parameter of the model: the list
  \<open>visit\<close> of the keys as visited.
\<close>

definition derive_body :: "partitions \<Rightarrow> string \<Rightarrow> partitions" where
  "derive_body partitions i =
     (case partitions i of
        None \<Rightarrow> partitions
      | Some p \<Rightarrow>
          partitions(i \<mapsto> p\<lparr>cpus_other := cpus_total p - cpus_allocated p - cpus_idle p\<rparr>))"

definition range_order :: "string list \<Rightarrow> partitions \<Rightarrow> bool" where
  "range_order visit partitions \<longleftrightarrow> distinct visit \<and> set visit = dom partitions"

text \<open>Fifth loop: every name in the comma-separated partition field of every job.\<close>

definition pending_inner :: "partitions \<Rightarrow> string \<Rightarrow> partitions" where
  "pending_inner partitions partitionName =
     (let m = get_or_new partitions partitionName
      in partitions(partitionName \<mapsto> m\<lparr>jobs_pending := jobs_pending m + 1\<rparr>))"

definition pending_body :: "partitions \<Rightarrow> JobInfo \<Rightarrow> partitions result" where
  "pending_body partitions j =
     (case GetJobPartitionName j of
        Err e \<Rightarrow> Err (''failed to get job partition name for partition metrics: '' @ e)
      | Panic x \<Rightarrow> Panic x
      | Ok pname \<Rightarrow> Ok (foldl pending_inner partitions (Split pname CHR '','')))"

text \<open>The map as it is when the fourth loop starts.\<close>

definition partitions_before_derive :: "PartitionInfo list \<Rightarrow> Node list \<Rightarrow> partitions result" where
  "partitions_before_derive partitionResp nodesResp =
     (case range_loop seed_body partitionResp Map.empty of
        Err e \<Rightarrow> Err e
      | Panic x \<Rightarrow> Panic x
      | Ok partitions \<Rightarrow>
          (case range_loop node_partitions_body nodesResp Map.empty of
             Err e \<Rightarrow> Err e
           | Panic x \<Rightarrow> Panic x
           | Ok nodePartitions \<Rightarrow> Ok (foldl fanout_body partitions nodesResp)))"

definition ParsePartitionsMetrics ::
  "string list \<Rightarrow> PartitionInfo list \<Rightarrow> JobInfo list \<Rightarrow> Node list \<Rightarrow> partitions result" where
  "ParsePartitionsMetrics visit partitionResp jobsResp nodesResp =
     (case partitions_before_derive partitionResp nodesResp of
        Err e \<Rightarrow> Err e
      | Panic x \<Rightarrow> Panic x
      | Ok partitions \<Rightarrow>
          range_loop pending_body jobsResp (foldl derive_body partitions visit))"

section \<open>Zero values\<close>

text \<open>The Go zero values \<open>JobInfo{}\<close> and \<open>Node{}\<close>: every pointer and slice is nil.
  Concrete inputs below are built from them.\<close>

definition zero_JobInfo :: JobInfo where
  "zero_JobInfo =
     \<lparr>job_Account = None, job_Partition = None, job_JobState = None, job_Cpus = None,
      job_UserName = None, job_Dependency = None\<rparr>"

definition zero_Node :: Node where
  "zero_Node =
     \<lparr>node_Name = None, node_State = None, node_Cpus = None, node_AllocCpus = None,
      node_AllocIdleCpus = None, node_Partitions = None, node_Tres = None,
      node_TresUsed = None\<rparr>"

section \<open>Predicates of the statements\<close>






text \<open>
  The sums the cluster CPU tally is claimed to compute, written after the claim:
  \<open>spec_alloc\<close> is the CPU count of a job classified \<open>Running\<close> (0 for any other job),
  \<open>spec_total\<close> the CPU count of a node that does not report exactly one CPU (0 for one
  that does), \<open>spec_idle\<close> the idle-CPU field of such a node when its state sequence
  contains \<open>Mix\<close>, \<open>Alloc\<close> or \<open>Idle\<close> (0 otherwise).
\<close>

definition spec_alloc :: "JobInfo \<Rightarrow> float64" where
  "spec_alloc j =
     (if GetJobState j = Ok JobStateRunning
      then (case GetJobCPUs j of Ok c \<Rightarrow> c | Err e \<Rightarrow> 0 | Panic p \<Rightarrow> 0)
      else 0)"

definition spec_total :: "Node \<Rightarrow> float64" where
  "spec_total n =
     (case node_Cpus n of
        None \<Rightarrow> 0
      | Some c \<Rightarrow> if c = 1 then 0 else real_of_int (sint c))"

definition counts_idle :: "NodeState \<Rightarrow> bool" where
  "counts_idle ns \<longleftrightarrow> ns = NodeStateMix \<or> ns = NodeStateAlloc \<or> ns = NodeStateIdle"

definition spec_idle :: "Node \<Rightarrow> float64" where
  "spec_idle n =
     (if node_Cpus n = Some 1 then 0
      else (case GetNodeStates n of
              Ok sts \<Rightarrow>
                if list_ex counts_idle sts
                then (case node_AllocIdleCpus n of
                        None \<Rightarrow> 0
                      | Some i \<Rightarrow> real_of_int (sint i))
                else 0
            | Err e \<Rightarrow> 0
            | Panic p \<Rightarrow> 0))"








text \<open>The assignment of the fourth loop to one record.\<close>

definition derive :: "partitionMetrics \<Rightarrow> partitionMetrics" where
  "derive p = p\<lparr>cpus_other := cpus_total p - cpus_allocated p - cpus_idle p\<rparr>"

section \<open>Loops and results: general facts\<close>


lemma is_Ok_iff: "is_Ok r \<longleftrightarrow> (\<exists>v. r = Ok v)"
  by (cases r) auto

lemma is_Panic_iff: "is_Panic r \<longleftrightarrow> (\<exists>p. r = Panic p)"
  by (cases r) auto

lemma range_loop_append:
  "range_loop body (xs @ ys) s =
     (case range_loop body xs s of
        Ok s' \<Rightarrow> range_loop body ys s'
      | Err e \<Rightarrow> Err e
      | Panic p \<Rightarrow> Panic p)"
  by (induction xs arbitrary: s) (auto split: result.splits)


lemma range_loop_not_Err:
  "(\<And>s x. body s x \<noteq> Err e) \<Longrightarrow> range_loop body xs s \<noteq> Err e"
  by (induction xs arbitrary: s) (auto split: result.splits)

lemma range_loop_Ok:
  assumes "\<And>s x. x \<in> set xs \<Longrightarrow> is_Ok (body s x)"
  shows "is_Ok (range_loop body xs s)"
  using assms
proof (induction xs arbitrary: s)
  case Nil
  then show ?case by simp
next
  case (Cons x xs)
  from Cons.prems[of x s] obtain s' where "body s x = Ok s'"
    by (auto simp: is_Ok_iff)
  with Cons.IH[of s'] Cons.prems show ?case by simp
qed

lemmas lower_simps = ToLower_def ToLower_char_def

section \<open>Accessors: where they cannot panic\<close>




section \<open>Resource extraction\<close>

text \<open>
  C8. On the total-resource string \<open>cpu=48,mem=1020522M,billing=48,gres/gpu=4\<close> the GPU
  count is 4; on \<open>cpu=1,mem=1M,billing=1\<close>, where no pair holds the tag, it is 0 and no
  error; on \<open>cpu=48,gres/gpu=bad\<close>, where the value of the matching pair is not an
  integer, and on \<open>cpu=48,gres/gpu=4=4\<close>, where the matching pair does not split into
  two parts, an error is returned. The same holds of the used-resource string.
\<close>

theorem GetNodeGPU_examples:
  "GetNodeGPUTotal (zero_Node\<lparr>node_Tres := Some ''cpu=48,mem=1020522M,billing=48,gres/gpu=4''\<rparr>)
     = Ok 4
   \<and> GetNodeGPUTotal (zero_Node\<lparr>node_Tres := Some ''cpu=1,mem=1M,billing=1''\<rparr>) = Ok 0
   \<and> GetNodeGPUTotal (zero_Node\<lparr>node_Tres := Some ''cpu=48,gres/gpu=bad''\<rparr>)
       = Err ''failed to parse number of gpus from tres: gres/gpu=bad''
   \<and> GetNodeGPUTotal (zero_Node\<lparr>node_Tres := Some ''cpu=48,gres/gpu=4=4''\<rparr>)
       = Err ''found gpu in tres but failed to parse: gres/gpu=4=4''
   \<and> GetNodeGPUAllocated
         (zero_Node\<lparr>node_TresUsed := Some ''cpu=48,mem=1020522M,billing=48,gres/gpu=4''\<rparr>)
       = Ok 4
   \<and> GetNodeGPUAllocated (zero_Node\<lparr>node_TresUsed := Some ''cpu=1,mem=1M,billing=1''\<rparr>) = Ok 0
   \<and> GetNodeGPUAllocated (zero_Node\<lparr>node_TresUsed := Some ''cpu=48,gres/gpu=bad''\<rparr>)
       = Err ''failed to parse number of gpus from tres: gres/gpu=bad''"
  by (simp add: GetNodeGPUTotal_def GetNodeGPUAllocated_def zero_Node_def Atoi_def digit_of_def)

section \<open>Job-state classification\<close>

text \<open>
  C5. A job whose state slice is empty but not nil makes \<open>GetJobState\<close> panic on the
  index, where the claim expects the error "job state not found"; only the nil slice
  gives that error.
\<close>

theorem GetJobState_empty_slice:
  "GetJobState (j\<lparr>job_JobState := Some []\<rparr>) = Panic IndexOutOfRange
   \<and> GetJobState (j\<lparr>job_JobState := None\<rparr>) = Err ''job state not found in job''"
  by (simp add: GetJobState_def)

text \<open>On a slice that is not empty only the first element counts, read without regard
  to the case of its letters.\<close>

lemma GetJobState_first_only:
  "GetJobState (j\<lparr>job_JobState := Some (s # rest)\<rparr>) = GetJobState (j\<lparr>job_JobState := Some [s]\<rparr>)"
  by (simp add: GetJobState_def)

lemma GetJobState_case_insensitive:
  "ToLower s = ToLower s' \<Longrightarrow>
   GetJobState (j\<lparr>job_JobState := Some (s # rest)\<rparr>)
     = GetJobState (j\<lparr>job_JobState := Some (s' # rest')\<rparr>)"
  by (simp add: GetJobState_def)

section \<open>Node-state classification\<close>

text \<open>The case for \<open>^invalid_reg\<close> stands after the case for \<open>^invalid\<close>, which matches
  every token the later one matches: no token is classified \<open>NodeStateInvalidReg\<close>.\<close>

lemma node_state_switch_never_InvalidReg: "node_state_switch state \<noteq> Ok NodeStateInvalidReg"
  by (auto simp: node_state_switch_def prefix_def)

text \<open>
  C4. The token \<open>INVALID_REG\<close>, lower-cased, is matched by two patterns of the node-state
  rules, \<open>^invalid\<close> and \<open>^invalid_reg\<close>, and \<open>GetNodeStates\<close> classifies it as
  \<open>NodeStateInvalid\<close>, the earlier case, where the claim expects \<open>NodeStateInvalidReg\<close>.
\<close>

theorem GetNodeStates_invalid_reg:
  "prefix ''invalid'' (ToLower ''INVALID_REG'')
   \<and> prefix ''invalid_reg'' (ToLower ''INVALID_REG'')
   \<and> GetNodeStates (zero_Node\<lparr>node_State := Some [''INVALID_REG'']\<rparr>) = Ok [NodeStateInvalid]"
  by (simp add: GetNodeStates_def node_state_switch_def zero_Node_def lower_simps)

section \<open>Fair-share tally\<close>

lemma fairshare_body_not_Err: "fairshare_body accounts s \<noteq> Err e"
  by (simp add: fairshare_body_def Let_def split: option.splits)

text \<open>
  C9. A share record without a name, without a fairshare object or without a level makes
  \<open>ParseFairShareMetrics\<close> panic on the nil pointer, where the claim expects a returned
  error; the function returns an error on no input at all.
\<close>

theorem ParseFairShareMetrics_nil_field:
  "ParseFairShareMetrics [\<lparr>share_Name = None, share_Fairshare = Some \<lparr>Level = Some 1\<rparr>\<rparr>]
     = Panic NilDereference
   \<and> ParseFairShareMetrics [\<lparr>share_Name = Some ''acct'', share_Fairshare = None\<rparr>]
       = Panic NilDereference
   \<and> ParseFairShareMetrics [\<lparr>share_Name = Some ''acct'', share_Fairshare = Some \<lparr>Level = None\<rparr>\<rparr>]
       = Panic NilDereference
   \<and> ParseFairShareMetrics shares \<noteq> Err e"
proof -
  have "ParseFairShareMetrics shares \<noteq> Err e"
    unfolding ParseFairShareMetrics_def
    by (rule range_loop_not_Err) (rule fairshare_body_not_Err)
  then show ?thesis
    by (simp add: ParseFairShareMetrics_def fairshare_body_def)
qed

text \<open>Where every share record has its name and level, the result is keyed by account
  name and holds, under a name, the level of the last record of that name.\<close>

lemma fairshare_update: "(x :: fairShareMetrics)\<lparr>fairshare := l\<rparr> = \<lparr>fairshare = l\<rparr>"
  by (cases x) simp

lemma fairshare_loop_last:
  assumes "range_loop fairshare_body shares m0 = Ok m"
  shows "m a =
    (case filter (\<lambda>s. share_Name s = Some a) shares of
       [] \<Rightarrow> m0 a
     | x # xs \<Rightarrow>
         Some \<lparr>fairshare = the (Level (the (share_Fairshare (last (x # xs)))))\<rparr>)"
  using assms
proof (induction shares arbitrary: m0)
  case Nil
  then show ?case by simp
next
  case (Cons s ss)
  from Cons.prems obtain m1 where
    b: "fairshare_body m0 s = Ok m1" and r: "range_loop fairshare_body ss m1 = Ok m"
    by (auto split: result.splits)
  from b obtain name f l where
    n: "share_Name s = Some name" and f: "share_Fairshare s = Some f" and l: "Level f = Some l"
    and m1: "m1 = m0(name \<mapsto> \<lparr>fairshare = l\<rparr>)"
    by (auto simp: fairshare_body_def Let_def fairshare_update split: option.splits)
  show ?case
    unfolding Cons.IH[OF r]
    by (simp add: m1 n f l split: list.splits)
qed

lemma ParseFairShareMetrics_last_write_wins:
  assumes "ParseFairShareMetrics shares = Ok m"
  shows "m a =
    (case filter (\<lambda>s. share_Name s = Some a) shares of
       [] \<Rightarrow> None
     | x # xs \<Rightarrow>
         Some \<lparr>fairshare = the (Level (the (share_Fairshare (last (x # xs)))))\<rparr>)"
  using fairshare_loop_last[of shares Map.empty m a] assms
  by (simp add: ParseFairShareMetrics_def)

section \<open>Queue tally\<close>

text \<open>
  C3, counterexample. A job in state \<open>OUT_OF_MEMORY\<close> classifies to
  \<open>JobStateOutOfMemory\<close>, and the queue tally of that one job has every counter at zero:
  no counter was incremented.
\<close>

theorem queue_out_of_memory_counterexample:
  "GetJobState (zero_JobInfo\<lparr>job_JobState := Some [''OUT_OF_MEMORY'']\<rparr>) = Ok JobStateOutOfMemory
   \<and> ParseQueueMetrics [zero_JobInfo\<lparr>job_JobState := Some [''OUT_OF_MEMORY'']\<rparr>]
       = Ok NewQueueMetrics
   \<and> counters NewQueueMetrics = [0, 0, 0, 0, 0, 0, 0, 0, 0, 0, 0, 0]"
  by (simp add: ParseQueueMetrics_def queue_body_def GetJobState_def zero_JobInfo_def lower_simps
      counters_def NewQueueMetrics_def)

text \<open>
  C3, amended. Let the queue tally of the jobs \<open>js\<close> be \<open>qm\<close>, and let one more job \<open>j\<close>
  classify to the state \<open>s\<close>, with its dependency field present when \<open>s\<close> is \<open>Pending\<close>.
  Then the tally of \<open>js\<close> followed by \<open>j\<close> exists. If \<open>s\<close> is \<open>OutOfMemory\<close> it is \<open>qm\<close>
  unchanged. Otherwise it is \<open>qm\<close> with exactly one of the twelve counters incremented by
  one: \<open>pending_dep\<close> or \<open>pending\<close> for a \<open>Pending\<close> job with or without a dependency, and
  for every other state the counter of that state.
\<close>

theorem ParseQueueMetrics_one_counter:
  assumes "ParseQueueMetrics js = Ok qm"
    and "GetJobState j = Ok s"
    and "s = JobStatePending \<longrightarrow> job_Dependency j = Some d"
  shows "\<exists>qm'. ParseQueueMetrics (js @ [j]) = Ok qm'
    \<and> (s = JobStateOutOfMemory \<longrightarrow> qm' = qm)
    \<and> (s \<noteq> JobStateOutOfMemory \<longrightarrow>
          (\<exists>i<12. counters qm' = (counters qm)[i := counters qm ! i + 1]))
    \<and> (s = JobStatePending \<and> d \<noteq> [] \<longrightarrow> qm_pending_dep qm' = qm_pending_dep qm + 1)
    \<and> (s = JobStatePending \<and> d = [] \<longrightarrow> qm_pending qm' = qm_pending qm + 1)
    \<and> (s = JobStateRunning \<longrightarrow> qm_running qm' = qm_running qm + 1)
    \<and> (s = JobStateSuspended \<longrightarrow> qm_suspended qm' = qm_suspended qm + 1)
    \<and> (s = JobStateCancelled \<longrightarrow> qm_cancelled qm' = qm_cancelled qm + 1)
    \<and> (s = JobStateCompleting \<longrightarrow> qm_completing qm' = qm_completing qm + 1)
    \<and> (s = JobStateCompleted \<longrightarrow> qm_completed qm' = qm_completed qm + 1)
    \<and> (s = JobStateConfiguring \<longrightarrow> qm_configuring qm' = qm_configuring qm + 1)
    \<and> (s = JobStateFailed \<longrightarrow> qm_failed qm' = qm_failed qm + 1)
    \<and> (s = JobStateTimeout \<longrightarrow> qm_timeout qm' = qm_timeout qm + 1)
    \<and> (s = JobStatePreempted \<longrightarrow> qm_preempted qm' = qm_preempted qm + 1)
    \<and> (s = JobStateNodeFail \<longrightarrow> qm_node_fail qm' = qm_node_fail qm + 1)"
proof -
  have step: "ParseQueueMetrics (js @ [j]) = queue_body qm j"
    using assms(1) by (simp add: ParseQueueMetrics_def range_loop_append split: result.splits)
  show ?thesis
  proof (cases s)
    case JobStatePending
    then show ?thesis using assms(2,3) step
      apply (simp add: queue_body_def counters_def)
      apply (intro conjI impI)
       apply (rule exI[of _ 1], simp)
      apply (rule exI[of _ 0], simp)
      done
  next
    case JobStateRunning
    then show ?thesis using assms(2) step
      by (simp add: queue_body_def counters_def) (rule exI[of _ 2], simp)
  next
    case JobStateSuspended
    then show ?thesis using assms(2) step
      by (simp add: queue_body_def counters_def) (rule exI[of _ 3], simp)
  next
    case JobStateCancelled
    then show ?thesis using assms(2) step
      by (simp add: queue_body_def counters_def) (rule exI[of _ 4], simp)
  next
    case JobStateCompleting
    then show ?thesis using assms(2) step
      by (simp add: queue_body_def counters_def) (rule exI[of _ 5], simp)
  next
    case JobStateCompleted
    then show ?thesis using assms(2) step
      by (simp add: queue_body_def counters_def) (rule exI[of _ 6], simp)
  next
    case JobStateConfiguring
    then show ?thesis using assms(2) step
      by (simp add: queue_body_def counters_def) (rule exI[of _ 7], simp)
  next
    case JobStateFailed
    then show ?thesis using assms(2) step
      by (simp add: queue_body_def counters_def) (rule exI[of _ 8], simp)
  next
    case JobStateTimeout
    then show ?thesis using assms(2) step
      by (simp add: queue_body_def counters_def) (rule exI[of _ 9], simp)
  next
    case JobStatePreempted
    then show ?thesis using assms(2) step
      by (simp add: queue_body_def counters_def) (rule exI[of _ 10], simp)
  next
    case JobStateNodeFail
    then show ?thesis using assms(2) step
      by (simp add: queue_body_def counters_def) (rule exI[of _ 11], simp)
  next
    case JobStateOutOfMemory
    then show ?thesis using assms(2) step
      by (simp add: queue_body_def)
  qed
qed

text \<open>The theorem at a pending job with a dependency, after one running job.\<close>

theorem ParseQueueMetrics_one_counter_witness:
  "ParseQueueMetrics [zero_JobInfo\<lparr>job_JobState := Some [''RUNNING'']\<rparr>]
     = Ok (NewQueueMetrics\<lparr>qm_running := 1\<rparr>)
   \<and> GetJobState (zero_JobInfo\<lparr>job_JobState := Some [''PENDING''], job_Dependency := Some ''afterok:7''\<rparr>)
       = Ok JobStatePending
   \<and> (\<exists>qm'. ParseQueueMetrics
         ([zero_JobInfo\<lparr>job_JobState := Some [''RUNNING'']\<rparr>]
          @ [zero_JobInfo\<lparr>job_JobState := Some [''PENDING''], job_Dependency := Some ''afterok:7''\<rparr>])
         = Ok qm'
       \<and> qm_pending_dep qm' = 1 \<and> qm_running qm' = 1 \<and> qm_pending qm' = 0)"
proof -
  have a: "ParseQueueMetrics [zero_JobInfo\<lparr>job_JobState := Some [''RUNNING'']\<rparr>]
     = Ok (NewQueueMetrics\<lparr>qm_running := 1\<rparr>)"
    by (simp add: ParseQueueMetrics_def queue_body_def GetJobState_def zero_JobInfo_def lower_simps
        NewQueueMetrics_def)
  have b: "GetJobState (zero_JobInfo\<lparr>job_JobState := Some [''PENDING''], job_Dependency := Some ''afterok:7''\<rparr>)
       = Ok JobStatePending"
    by (simp add: GetJobState_def zero_JobInfo_def lower_simps)
  have c: "JobStatePending = JobStatePending \<longrightarrow>
      job_Dependency (zero_JobInfo\<lparr>job_JobState := Some [''PENDING''], job_Dependency := Some ''afterok:7''\<rparr>)
        = Some ''afterok:7''"
    by simp
  from ParseQueueMetrics_one_counter[OF a b c] obtain qm' where
    "ParseQueueMetrics
         ([zero_JobInfo\<lparr>job_JobState := Some [''RUNNING'']\<rparr>]
          @ [zero_JobInfo\<lparr>job_JobState := Some [''PENDING''], job_Dependency := Some ''afterok:7''\<rparr>])
         = Ok qm'"
    and "qm_pending_dep qm' = qm_pending_dep (NewQueueMetrics\<lparr>qm_running := 1\<rparr>) + 1"
    and "\<exists>i<12. counters qm' = (counters (NewQueueMetrics\<lparr>qm_running := 1\<rparr>))
           [i := counters (NewQueueMetrics\<lparr>qm_running := 1\<rparr>) ! i + 1]"
    by auto
  then have "ParseQueueMetrics
         ([zero_JobInfo\<lparr>job_JobState := Some [''RUNNING'']\<rparr>]
          @ [zero_JobInfo\<lparr>job_JobState := Some [''PENDING''], job_Dependency := Some ''afterok:7''\<rparr>])
         = Ok qm'
       \<and> qm_pending_dep qm' = 1 \<and> qm_running qm' = 1 \<and> qm_pending qm' = 0"
    by (auto simp: ParseQueueMetrics_def queue_body_def GetJobState_def zero_JobInfo_def lower_simps
        NewQueueMetrics_def)
  with a b show ?thesis by blast
qed

section \<open>Account and user job tallies\<close>











section \<open>Cluster CPU tally\<close>















lemma cpus_job_loop_alloc:
  assumes "range_loop cpus_job_body jobs (cm, lg) = Ok (cm', lg')"
  shows "cm' = cm\<lparr>cm_alloc := cm_alloc cm + sum_list (map spec_alloc jobs)\<rparr>"
  using assms
proof (induction jobs arbitrary: cm lg)
  case Nil
  then show ?case by simp
next
  case (Cons j js)
  from Cons.prems obtain c1 l1 where
    b: "cpus_job_body (cm, lg) j = Ok (c1, l1)"
    and r: "range_loop cpus_job_body js (c1, l1) = Ok (cm', lg')"
    by (auto split: result.splits)
  from b have "c1 = cm\<lparr>cm_alloc := cm_alloc cm + spec_alloc j\<rparr>"
    by (cases "GetJobState j"; cases "GetJobCPUs j")
       (auto simp: cpus_job_body_def spec_alloc_def)
  with Cons.IH[OF r] show ?case
    by (simp add: add.assoc)
qed

lemma cpus_state_loop_idle:
  assumes "range_loop (cpus_state_body n) sts cm = Ok cm'"
  shows "cm' = cm\<lparr>cm_idle := cm_idle cm
      + real (length (filter counts_idle sts))
        * (case node_AllocIdleCpus n of None \<Rightarrow> 0 | Some i \<Rightarrow> real_of_int (sint i))\<rparr>"
  using assms
proof (induction sts arbitrary: cm)
  case Nil
  then show ?case by simp
next
  case (Cons s ss)
  from Cons.prems obtain c1 where
    b: "cpus_state_body n cm s = Ok c1"
    and r: "range_loop (cpus_state_body n) ss c1 = Ok cm'"
    by (auto split: result.splits)
  from b have "c1 = cm\<lparr>cm_idle := cm_idle cm
      + (if counts_idle s
         then (case node_AllocIdleCpus n of None \<Rightarrow> 0 | Some i \<Rightarrow> real_of_int (sint i))
         else 0)\<rparr>"
    by (auto simp: cpus_state_body_def counts_idle_def split: option.splits if_splits)
  with Cons.IH[OF r] show ?case
    by (simp add: algebra_simps)
qed

lemma list_ex_filter_one:
  assumes "length (filter P xs) \<le> 1"
  shows "real (length (filter P xs)) = (if list_ex P xs then 1 else 0)"
proof (cases "filter P xs")
  case Nil
  then have "\<not> list_ex P xs"
    by (auto simp: list_ex_iff filter_empty_conv)
  with Nil show ?thesis by simp
next
  case (Cons y ys)
  with assms have "length (filter P xs) = 1" by simp
  moreover from Cons have "list_ex P xs"
    by (metis filter_empty_conv list.distinct(1) list_ex_iff)
  ultimately show ?thesis by simp
qed

lemma cpus_node_body_sums:
  assumes "cpus_node_body cm n = Ok cm'"
    and "\<forall>sts. GetNodeStates n = Ok sts \<longrightarrow> length (filter counts_idle sts) \<le> 1"
  shows "cm' = cm\<lparr>cm_idle := cm_idle cm + spec_idle n, cm_total := cm_total cm + spec_total n\<rparr>"
proof -
  from assms(1) obtain c where c: "node_Cpus n = Some c"
    by (auto simp: cpus_node_body_def split: option.splits)
  show ?thesis
  proof (cases "c = 1")
    case True
    with assms(1) c show ?thesis
      by (simp add: cpus_node_body_def spec_idle_def spec_total_def)
  next
    case False
    with assms(1) c obtain sts where
      g: "GetNodeStates n = Ok sts"
      and l: "range_loop (cpus_state_body n) sts
                (cm\<lparr>cm_total := cm_total cm + real_of_int (sint c)\<rparr>) = Ok cm'"
      by (auto simp: cpus_node_body_def Let_def split: result.splits)
    from assms(2) g have "length (filter counts_idle sts) \<le> 1" by simp
    note one = list_ex_filter_one[OF this]
    from cpus_state_loop_idle[OF l] show ?thesis
      by (simp add: one spec_idle_def spec_total_def c g False)
  qed
qed

lemma cpus_node_loop_sums:
  assumes "range_loop cpus_node_body nodes cm = Ok cm'"
    and "\<forall>n\<in>set nodes. \<forall>sts. GetNodeStates n = Ok sts \<longrightarrow> length (filter counts_idle sts) \<le> 1"
  shows "cm' = cm\<lparr>cm_idle := cm_idle cm + sum_list (map spec_idle nodes),
                  cm_total := cm_total cm + sum_list (map spec_total nodes)\<rparr>"
  using assms
proof (induction nodes arbitrary: cm)
  case Nil
  then show ?case by simp
next
  case (Cons n ns)
  from Cons.prems(1) obtain c1 where
    b: "cpus_node_body cm n = Ok c1"
    and r: "range_loop cpus_node_body ns c1 = Ok cm'"
    by (auto split: result.splits)
  from Cons.prems(2) have
    "\<forall>sts. GetNodeStates n = Ok sts \<longrightarrow> length (filter counts_idle sts) \<le> 1"
    by simp
  note c1 = cpus_node_body_sums[OF b this]
  from Cons.prems(2) have
    "\<forall>n\<in>set ns. \<forall>sts. GetNodeStates n = Ok sts \<longrightarrow> length (filter counts_idle sts) \<le> 1"
    by simp
  from Cons.IH[OF r this] c1 show ?case
    by (simp add: add.assoc)
qed

text \<open>
  C7, counterexample. A node that reports one CPU, in state \<open>IDLE\<close> with one idle CPU: its
  state sequence contains \<open>Idle\<close>, yet the idle count of the cluster is 0, not 1.
\<close>

theorem cpus_idle_single_cpu_counterexample:
  "GetNodeStates
     (zero_Node\<lparr>node_Cpus := Some 1, node_State := Some [''IDLE''], node_AllocIdleCpus := Some 1\<rparr>)
     = Ok [NodeStateIdle]
   \<and> ParseCPUsMetrics
       [zero_Node\<lparr>node_Cpus := Some 1, node_State := Some [''IDLE''], node_AllocIdleCpus := Some 1\<rparr>]
       []
       = Ok (\<lparr>cm_alloc = 0, cm_idle = 0, cm_other = 0, cm_total = 0\<rparr>, [])"
  by (simp add: GetNodeStates_def node_state_switch_def lower_simps ParseCPUsMetrics_def
      cpus_node_body_def NewCPUsMetrics_def)

text \<open>
  C7, amended. When \<open>ParseCPUsMetrics\<close> returns metrics, and no node has more than one of
  the states \<open>Mix\<close>, \<open>Alloc\<close>, \<open>Idle\<close> in its state sequence, then: \<open>alloc\<close> is the sum of
  the CPU counts of the jobs classified \<open>Running\<close>; \<open>total\<close> is the sum of the CPU counts
  of the nodes that do not report exactly one CPU; \<open>idle\<close> is the sum, over those same
  nodes, of the idle-CPU field of each node whose state sequence contains \<open>Mix\<close>,
  \<open>Alloc\<close> or \<open>Idle\<close>; and \<open>other\<close> is \<open>total - idle - alloc\<close>.
\<close>

theorem ParseCPUsMetrics_sums:
  assumes "ParseCPUsMetrics nodes jobs = Ok (cm, lg)"
    and "\<forall>n\<in>set nodes. \<forall>sts. GetNodeStates n = Ok sts \<longrightarrow> length (filter counts_idle sts) \<le> 1"
  shows "cm_alloc cm = sum_list (map spec_alloc jobs)
    \<and> cm_total cm = sum_list (map spec_total nodes)
    \<and> cm_idle cm = sum_list (map spec_idle nodes)
    \<and> cm_other cm = cm_total cm - cm_idle cm - cm_alloc cm"
proof -
  from assms(1) obtain c1 c2 where
    j: "range_loop cpus_job_body jobs (NewCPUsMetrics, []) = Ok (c1, lg)"
    and n: "range_loop cpus_node_body nodes c1 = Ok c2"
    and cm: "cm = c2\<lparr>cm_other := cm_total c2 - cm_idle c2 - cm_alloc c2\<rparr>"
    by (auto simp: ParseCPUsMetrics_def split: result.splits prod.splits)
  from cpus_job_loop_alloc[OF j] cpus_node_loop_sums[OF n assms(2)] cm show ?thesis
    by (simp add: NewCPUsMetrics_def)
qed

text \<open>The theorem at the example of the specification: one running job of four CPUs,
  two nodes of eight CPUs, one idle with two idle CPUs, the other down.\<close>

theorem ParseCPUsMetrics_sums_witness:
  "ParseCPUsMetrics
     [zero_Node\<lparr>node_Cpus := Some 8, node_State := Some [''IDLE''], node_AllocIdleCpus := Some 2\<rparr>,
      zero_Node\<lparr>node_Cpus := Some 8, node_State := Some [''DOWN'']\<rparr>]
     [zero_JobInfo\<lparr>job_JobState := Some [''RUNNING''], job_Cpus := Some \<lparr>Number = Some 4\<rparr>\<rparr>]
     = Ok (\<lparr>cm_alloc = 4, cm_idle = 2, cm_other = 10, cm_total = 16\<rparr>, [])
   \<and> sum_list (map spec_alloc
       [zero_JobInfo\<lparr>job_JobState := Some [''RUNNING''], job_Cpus := Some \<lparr>Number = Some 4\<rparr>\<rparr>]) = 4
   \<and> sum_list (map spec_total
       [zero_Node\<lparr>node_Cpus := Some 8, node_State := Some [''IDLE''], node_AllocIdleCpus := Some 2\<rparr>,
        zero_Node\<lparr>node_Cpus := Some 8, node_State := Some [''DOWN'']\<rparr>]) = 16
   \<and> sum_list (map spec_idle
       [zero_Node\<lparr>node_Cpus := Some 8, node_State := Some [''IDLE''], node_AllocIdleCpus := Some 2\<rparr>,
        zero_Node\<lparr>node_Cpus := Some 8, node_State := Some [''DOWN'']\<rparr>]) = 2"
  (is "?R \<and> ?A \<and> ?T \<and> ?I")
proof -
  let ?n1 = "zero_Node\<lparr>node_Cpus := Some 8, node_State := Some [''IDLE''], node_AllocIdleCpus := Some 2\<rparr>"
  let ?n2 = "zero_Node\<lparr>node_Cpus := Some 8, node_State := Some [''DOWN'']\<rparr>"
  let ?j = "zero_JobInfo\<lparr>job_JobState := Some [''RUNNING''], job_Cpus := Some \<lparr>Number = Some 4\<rparr>\<rparr>"
  have js: "GetJobState ?j = Ok JobStateRunning"
    by (simp add: GetJobState_def lower_simps)
  have ns: "GetNodeStates ?n1 = Ok [NodeStateIdle]" "GetNodeStates ?n2 = Ok [NodeStateDown]"
    by (simp_all add: GetNodeStates_def node_state_switch_def lower_simps)
  have r: ?R
    by (simp add: ParseCPUsMetrics_def cpus_job_body_def js GetJobCPUs_def cpus_node_body_def ns
        cpus_state_body_def NewCPUsMetrics_def)
  have h: "\<forall>n\<in>set [?n1, ?n2]. \<forall>sts. GetNodeStates n = Ok sts \<longrightarrow> length (filter counts_idle sts) \<le> 1"
    by (simp add: ns counts_idle_def)
  from ParseCPUsMetrics_sums[OF r h] have "?A \<and> ?T \<and> ?I"
    by simp
  with r show ?thesis by simp
qed

section \<open>Partition cross-reference\<close>

lemma get_or_new_upd [simp]:
  "get_or_new (m(k \<mapsto> v)) k' = (if k' = k then v else get_or_new m k')"
  by (simp add: get_or_new_def)

lemma get_or_new_empty [simp]: "get_or_new Map.empty k = NewPartitionsMetrics"
  by (simp add: get_or_new_def)


subsection \<open>First loop\<close>




subsection \<open>Third loop\<close>









subsection \<open>Fourth loop\<close>

lemma derive_idem [simp]: "derive (derive p) = derive p"
  by (simp add: derive_def)

lemma derive_body_app:
  "derive_body m i k = (if k = i then map_option derive (m i) else m k)"
  by (auto simp: derive_body_def derive_def split: option.splits)

lemma map_option_derive_idem: "map_option derive (map_option derive v) = map_option derive v"
  by (cases v) simp_all

text \<open>The order of the visits does not show in the result: every key visited has its
  record derived once, whatever the list of the visits.\<close>

lemma derive_fold:
  "foldl derive_body m ks = (\<lambda>k. if k \<in> set ks then map_option derive (m k) else m k)"
proof (induction ks arbitrary: m)
  case Nil
  then show ?case by simp
next
  case (Cons x xs)
  have "foldl derive_body m (x # xs) = foldl derive_body (derive_body m x) xs"
    by simp
  also have "\<dots> = (\<lambda>k. if k \<in> set xs then map_option derive (derive_body m x k)
                         else derive_body m x k)"
    by (rule Cons.IH)
  also have "\<dots> = (\<lambda>k. if k \<in> set (x # xs) then map_option derive (m k) else m k)"
    by (auto simp: fun_eq_iff derive_body_app map_option_derive_idem)
  finally show ?case .
qed

lemma derive_range_order:
  assumes "range_order visit m"
  shows "foldl derive_body m visit = (\<lambda>k. map_option derive (m k))"
  using assms by (auto simp: derive_fold range_order_def fun_eq_iff domIff)

lemma ParsePartitionsMetrics_order_independent:
  assumes "partitions_before_derive partitionResp nodesResp = Ok p"
    and "range_order visit p" and "range_order visit' p"
  shows "ParsePartitionsMetrics visit partitionResp jobsResp nodesResp
    = ParsePartitionsMetrics visit' partitionResp jobsResp nodesResp"
  using assms by (simp add: ParsePartitionsMetrics_def derive_range_order)

subsection \<open>Fifth loop\<close>








subsection \<open>The result\<close>




text \<open>The call returns a map when every partition record has a name and a total,
  every node a name and every job a partition field.\<close>

lemma ParsePartitionsMetrics_returns:
  assumes "\<And>x. x \<in> set partitionResp \<Longrightarrow>
             partition_Name x \<noteq> None \<and> (\<exists>c t. partition_Cpus x = Some c \<and> Total c = Some t)"
    and "\<And>x. x \<in> set nodes \<Longrightarrow> node_Name x \<noteq> None"
    and "\<And>x. x \<in> set jobs \<Longrightarrow> job_Partition x \<noteq> None"
  shows "is_Ok (ParsePartitionsMetrics visit partitionResp jobs nodes)"
proof -
  have "is_Ok (seed_body s x)" if "x \<in> set partitionResp" for s x
    using assms(1)[OF that]
    by (auto simp: seed_body_def GetPartitionName_def GetPartitionTotalCPUs_def Let_def)
  then obtain m1 where 1: "range_loop seed_body partitionResp Map.empty = Ok m1"
    using range_loop_Ok[of partitionResp seed_body Map.empty] by (auto simp: is_Ok_iff)
  have "is_Ok (node_partitions_body s x)" if "x \<in> set nodes" for s x
    using assms(2)[OF that]
    by (auto simp: node_partitions_body_def GetNodeName_def)
  then obtain np where 2: "range_loop node_partitions_body nodes Map.empty = Ok np"
    using range_loop_Ok[of nodes node_partitions_body Map.empty] by (auto simp: is_Ok_iff)
  have "is_Ok (pending_body s x)" if "x \<in> set jobs" for s x
    using assms(3)[OF that]
    by (auto simp: pending_body_def GetJobPartitionName_def)
  then have "is_Ok (range_loop pending_body jobs s)" for s
    using range_loop_Ok[of jobs pending_body s] by blast
  then show ?thesis
    by (simp add: ParsePartitionsMetrics_def partitions_before_derive_def 1 2)
qed



end
